theory Spec2Isabelle
  imports Complex_Main "HOL-Library.Word"
begin

section \<open>JavaScript values used by the onboarding pages\<close>

text \<open>
  A JavaScript string is a sequence of 16-bit code units. String literals of the
  source are written \<open>js ''...''\<close>; every character of such a literal is below 256.
\<close>

type_synonym jschar = "16 word"
type_synonym jsstring = "jschar list"

definition js :: "string \<Rightarrow> jsstring" where
  "js s = map of_char s"

text \<open>
  A JavaScript number. A finite value is kept as the exact mathematical value of
  the literal it was read from; the rounding to a 64-bit double is not modelled
  (it is the identity on every integer below \<open>2^53\<close>).
\<close>

datatype jsnum = NaN | PosInf | NegInf | Fin rat

text \<open>
  The values an expression \<open>{k1: n1, ...}[key]\<close> can have: a number of the
  literal, \<open>undefined\<close>, or the member of \<open>Object.prototype\<close> of that name
  (a function, or the prototype object itself for \<open>__proto__\<close>).
\<close>

datatype jsvalue = JNum jsnum | Undefined | ObjectPrototypeMember jsstring

fun ToBoolean :: "jsvalue \<Rightarrow> bool" where
  "ToBoolean (JNum NaN) = False"
| "ToBoolean (JNum (Fin q)) = (q \<noteq> 0)"
| "ToBoolean (JNum PosInf) = True"
| "ToBoolean (JNum NegInf) = True"
| "ToBoolean Undefined = False"
| "ToBoolean (ObjectPrototypeMember k) = True"

text \<open>\<open>a || b\<close>\<close>

definition logical_or :: "jsvalue \<Rightarrow> jsvalue \<Rightarrow> jsvalue" where
  "logical_or a b = (if ToBoolean a then a else b)"

subsection \<open>String.prototype.trim, split and Array.prototype.join\<close>

text \<open>White space and line terminators of ECMAScript, as code units.\<close>

definition isWhiteSpace :: "jschar \<Rightarrow> bool" where
  "isWhiteSpace c \<longleftrightarrow>
     c = 0x09 \<or> c = 0x0A \<or> c = 0x0B \<or> c = 0x0C \<or> c = 0x0D \<or> c = 0x20 \<or> c = 0xA0
     \<or> c = 0x1680 \<or> (0x2000 \<le> c \<and> c \<le> 0x200A) \<or> c = 0x2028 \<or> c = 0x2029
     \<or> c = 0x202F \<or> c = 0x205F \<or> c = 0x3000 \<or> c = 0xFEFF"

definition trim :: "jsstring \<Rightarrow> jsstring" where
  "trim s = rev (dropWhile isWhiteSpace (rev (dropWhile isWhiteSpace s)))"

text \<open>\<open>s.split(sep)\<close> for a separator of one code unit: never the empty array.\<close>

fun split :: "jschar \<Rightarrow> jsstring \<Rightarrow> jsstring list" where
  "split sep [] = [[]]"
| "split sep (c # cs) =
     (if c = sep then [] # split sep cs
      else (case split sep cs of
              [] \<Rightarrow> [[c]]
            | x # xs \<Rightarrow> (c # x) # xs))"

text \<open>\<open>xs.join(sep)\<close> on an array of strings.\<close>

fun join :: "jsstring \<Rightarrow> jsstring list \<Rightarrow> jsstring" where
  "join sep [] = []"
| "join sep [x] = x"
| "join sep (x # y # ys) = x @ sep @ join sep (y # ys)"

subsection \<open>Number(string)\<close>

text \<open>
  \<open>Number(s)\<close> on a string: the string is trimmed; the empty string is \<open>0\<close>; a
  string that is a numeric literal as a whole (a signed decimal literal with
  optional fraction and exponent, \<open>Infinity\<close>, or an unsigned binary, octal or
  hexadecimal integer) is its value; any other string is \<open>NaN\<close>.
\<close>

definition isDigit :: "jschar \<Rightarrow> bool" where
  "isDigit c \<longleftrightarrow> 0x30 \<le> c \<and> c \<le> 0x39"

definition digitValue :: "jschar \<Rightarrow> nat option" where
  "digitValue c =
     (if 0x30 \<le> c \<and> c \<le> 0x39 then Some (unat c - 48)
      else if 0x61 \<le> c \<and> c \<le> 0x66 then Some (unat c - 87)
      else if 0x41 \<le> c \<and> c \<le> 0x46 then Some (unat c - 55)
      else None)"

definition isRadixDigit :: "nat \<Rightarrow> jschar \<Rightarrow> bool" where
  "isRadixDigit b c = (case digitValue c of None \<Rightarrow> False | Some d \<Rightarrow> d < b)"

definition radixValue :: "nat \<Rightarrow> jsstring \<Rightarrow> nat" where
  "radixValue b ds = foldl (\<lambda>a c. b * a + (case digitValue c of None \<Rightarrow> 0 | Some d \<Rightarrow> d)) 0 ds"

text \<open>The exponent part \<open>e\<close>, \<open>E\<close> with optional sign and at least one digit; absent is 0.\<close>

definition exponentPart :: "jsstring \<Rightarrow> int option" where
  "exponentPart s =
     (case s of
        [] \<Rightarrow> Some 0
      | c # r \<Rightarrow>
          if c = 0x65 \<or> c = 0x45 then
            (case r of
               [] \<Rightarrow> None
             | g # ds \<Rightarrow>
                 if g = 0x2B then
                   (if ds \<noteq> [] \<and> list_all isDigit ds then Some (int (radixValue 10 ds)) else None)
                 else if g = 0x2D then
                   (if ds \<noteq> [] \<and> list_all isDigit ds then Some (- int (radixValue 10 ds)) else None)
                 else
                   (if list_all isDigit r then Some (int (radixValue 10 r)) else None))
          else None)"

text \<open>
  An unsigned decimal literal other than \<open>Infinity\<close>: digits, optionally a dot and
  more digits, optionally an exponent; at least one digit before the exponent.
\<close>

definition unsignedDecimal :: "jsstring \<Rightarrow> rat option" where
  "unsignedDecimal s =
     (let ip = takeWhile isDigit s;
          r1 = dropWhile isDigit s;
          dot = (r1 \<noteq> [] \<and> hd r1 = 0x2E);
          fp = (if dot then takeWhile isDigit (tl r1) else []);
          r2 = (if dot then dropWhile isDigit (tl r1) else r1)
      in if ip = [] \<and> fp = [] then None
         else (case exponentPart r2 of
                 None \<Rightarrow> None
               | Some e \<Rightarrow>
                   Some (of_nat (radixValue 10 (ip @ fp)) * power_int 10 (e - int (length fp)))))"

definition strDecimalLiteral :: "jsstring \<Rightarrow> jsnum" where
  "strDecimalLiteral s =
     (case s of
        [] \<Rightarrow> NaN
      | c # r \<Rightarrow>
          if c = 0x2D then
            (if r = js ''Infinity'' then NegInf
             else (case unsignedDecimal r of None \<Rightarrow> NaN | Some q \<Rightarrow> Fin (- q)))
          else if c = 0x2B then
            (if r = js ''Infinity'' then PosInf
             else (case unsignedDecimal r of None \<Rightarrow> NaN | Some q \<Rightarrow> Fin q))
          else
            (if s = js ''Infinity'' then PosInf
             else (case unsignedDecimal s of None \<Rightarrow> NaN | Some q \<Rightarrow> Fin q)))"

definition nonDecimalRadix :: "jsstring \<Rightarrow> nat option" where
  "nonDecimalRadix s =
     (case s of
        z # p # ds \<Rightarrow>
          if z \<noteq> 0x30 then None
          else if p = 0x78 \<or> p = 0x58 then Some 16
          else if p = 0x6F \<or> p = 0x4F then Some 8
          else if p = 0x62 \<or> p = 0x42 then Some 2
          else None
      | _ \<Rightarrow> None)"

definition Number :: "jsstring \<Rightarrow> jsnum" where
  "Number s =
     (let t = trim s
      in if t = [] then Fin 0
         else (case nonDecimalRadix t of
                 Some b \<Rightarrow>
                   (let ds = drop 2 t
                    in if ds \<noteq> [] \<and> list_all (isRadixDigit b) ds
                       then Fin (of_nat (radixValue b ds)) else NaN)
               | None \<Rightarrow> strDecimalLiteral t))"

subsection \<open>Property lookup in an object literal\<close>

text \<open>
  The own property names of \<open>Object.prototype\<close>, which every object literal
  inherits from.
\<close>

definition Object_prototype_names :: "jsstring list" where
  "Object_prototype_names =
     [js ''constructor'', js ''hasOwnProperty'', js ''isPrototypeOf'',
      js ''propertyIsEnumerable'', js ''toLocaleString'', js ''toString'',
      js ''valueOf'', js ''__proto__'', js ''__defineGetter__'',
      js ''__defineSetter__'', js ''__lookupGetter__'', js ''__lookupSetter__'']"

text \<open>
  \<open>lit[key]\<close> for an object literal \<open>lit\<close> with numeric properties: the own
  property if there is one, else the inherited member, else \<open>undefined\<close>.
\<close>

definition get_property :: "(jsstring \<times> jsnum) list \<Rightarrow> jsstring \<Rightarrow> jsvalue" where
  "get_property lit key =
     (case map_of lit key of
        Some v \<Rightarrow> JNum v
      | None \<Rightarrow>
          if key \<in> set Object_prototype_names then ObjectPrototypeMember key
          else Undefined)"

section \<open>Data model\<close>

text \<open>\<open>RegisterFormData\<close>: the credential of the first registration form.\<close>

record RegisterFormData =
  username :: jsstring
  password :: jsstring

text \<open>\<open>FitnessAssessmentFormData\<close> (\<open>fitnessSchema\<close> of FitnessAssessment.tsx).\<close>

record basicInfo =
  age :: jsnum
  gender :: jsstring
  heightFeet :: jsnum
  heightInches :: jsnum
  weight :: jsstring

record fitnessProfile =
  fitnessGoal :: jsstring
  experienceLevel :: jsstring
  currentActivityLevel :: jsstring
  workoutPreferences :: "jsstring list"

record lifestyle =
  timeCommitment :: jsstring
  occupationType :: jsstring
  workSchedule :: jsstring
  sleepQuality :: jsstring
  stressLevel :: jsstring

record FitnessAssessmentFormData =
  basicInfo :: basicInfo
  fitnessProfile :: fitnessProfile
  lifestyle :: lifestyle

text \<open>\<open>PsychologicalAssessmentData\<close> (PsychologicalAssessment.tsx).\<close>

record emotionalDrivers =
  current :: "jsstring list"
  desired :: "jsstring list"
  impact :: jsnum

record personalVision =
  oneYearGoal :: jsstring
  visionSatisfaction :: jsnum

record readinessAssessment =
  efficacyBeliefs :: jsstring
  motivations :: jsstring
  challenges :: jsstring
  readinessScore :: jsnum
  barriers :: "jsstring list"
  supportSystem :: "jsstring list"
  psychologicalNarrative :: jsstring

record PsychologicalAssessmentData =
  emotionalDrivers :: emotionalDrivers
  personalVision :: personalVision
  readinessAssessment :: readinessAssessment

text \<open>\<open>AnalysisResponse\<close> and \<open>WorkoutPlanResponse\<close> (auth-page.tsx).\<close>

record analysisFactors =
  motivation :: jsnum
  commitment :: jsnum
  fitnessLevel :: jsnum
  lifestyle :: jsnum
  narrativeFactor :: jsnum

record motivationAnalysis =
  underlyingMotivations :: "jsstring list"
  readinessScore :: jsnum
  analysisFactors :: analysisFactors

record milestones =
  shortTerm :: "jsstring list"
  midTerm :: "jsstring list"
  longTerm :: "jsstring list"
  explanation :: jsstring

record successPrediction =
  successProbability :: jsnum
  confidenceScore :: jsnum
  keyFactors :: "jsstring list"
  recommendations :: "jsstring list"

record timelinePrediction =
  estimatedWeeks :: jsnum
  confidenceScore :: jsnum
  keyFactors :: "jsstring list"
  recommendations :: "jsstring list"

record AnalysisResponse =
  motivationAnalysis :: motivationAnalysis
  milestones :: milestones
  successPrediction :: successPrediction
  timelinePrediction :: timelinePrediction

record WorkoutPlanResponse =
  message :: jsstring
  biology :: "jsstring option"
  psychology :: "jsstring option"
  suggestions :: "jsstring list"

record ComprehensiveResults =
  motivationAnalysis :: motivationAnalysis
  milestones :: milestones
  successPrediction :: successPrediction
  timelinePrediction :: timelinePrediction
  workoutPlan :: "WorkoutPlanResponse option"

text \<open>
  \<open>InsertUser\<close>, the record submitted for account creation: the credential
  (\<open>...initialRegData\<close>) and the derived fields. Its three fields that hold the
  text of a nested object (\<open>emotionalDrivers\<close>, \<open>personalVision\<close>,
  \<open>readinessAssessment\<close>) are left out: that text contains the decimal rendering
  of floating-point numbers, and nothing below reads it.
\<close>

record InsertUser = RegisterFormData +
  age :: jsnum
  gender :: jsstring
  heightFeet :: jsnum
  heightInches :: jsnum
  weight :: jsstring
  fitnessGoal :: jsstring
  experienceLevel :: jsstring
  currentActivityLevel :: jsstring
  workoutPreferences :: jsstring
  motivationFactors :: jsstring
  pastAttempts :: jsnum
  confidenceLevel :: jsnum
  timeCommitment :: jsnum
  obstacles :: jsstring
  stressLevel :: jsvalue
  sleepQuality :: jsvalue
  dietaryPreferences :: jsstring
  supplementPreferences :: jsstring
  occupationType :: jsstring
  workSchedule :: jsstring
  injuries :: "jsstring option"
  medicalConditions :: "jsstring option"
  additionalNotes :: "jsstring option"

text \<open>The request bodies of the two analysis services.\<close>

record userData =
  age :: jsnum
  experienceLevel :: jsstring
  currentActivityLevel :: jsstring
  sleepQuality :: jsstring
  stressLevel :: jsstring
  workoutPreferences :: "jsstring list"
  timeCommitment :: jsstring

record analysisRequest =
  psychologicalNarrative :: jsstring
  efficacyBeliefs :: jsstring
  motivations :: jsstring
  challenges :: jsstring
  readinessScore :: jsnum
  userData :: userData

record workoutRequest =
  fitnessGoal :: jsstring
  experienceLevel :: jsstring
  age :: jsnum
  gender :: jsstring
  currentActivityLevel :: jsstring
  workoutPreferences :: "jsstring list"
  obstacles :: "jsstring list"
  timeCommitment :: jsstring

text \<open>
  The record the registration service answers with. The page hands it to
  \<open>setUser\<close> and never reads it; only its id and name are kept here.
\<close>

record User =
  userId :: jsnum
  userName :: jsstring

section \<open>The array encoding: JSON.stringify on an array of strings\<close>

definition isLeadingSurrogate :: "jschar \<Rightarrow> bool" where
  "isLeadingSurrogate c \<longleftrightarrow> 0xD800 \<le> c \<and> c \<le> 0xDBFF"

definition isTrailingSurrogate :: "jschar \<Rightarrow> bool" where
  "isTrailingSurrogate c \<longleftrightarrow> 0xDC00 \<le> c \<and> c \<le> 0xDFFF"

definition hexDigit :: "nat \<Rightarrow> jschar" where
  "hexDigit d = (if d < 10 then of_nat (48 + d) else of_nat (87 + d))"

text \<open>\<open>\uXXXX\<close> with four lower-case hexadecimal digits.\<close>

definition UnicodeEscape :: "jschar \<Rightarrow> jsstring" where
  "UnicodeEscape c =
     (let n = unat c
      in [0x5C, 0x75, hexDigit (n div 4096), hexDigit (n div 256 mod 16),
          hexDigit (n div 16 mod 16), hexDigit (n mod 16)])"

text \<open>
  One code unit that is not half of a surrogate pair: the two-character escapes,
  \<open>\uXXXX\<close> for the other control characters and for a lone surrogate, and the
  code unit itself otherwise.
\<close>

definition quoteUnit :: "jschar \<Rightarrow> jsstring" where
  "quoteUnit c =
     (if c = 0x08 then [0x5C, 0x62]
      else if c = 0x09 then [0x5C, 0x74]
      else if c = 0x0A then [0x5C, 0x6E]
      else if c = 0x0C then [0x5C, 0x66]
      else if c = 0x0D then [0x5C, 0x72]
      else if c = 0x22 then [0x5C, 0x22]
      else if c = 0x5C then [0x5C, 0x5C]
      else if c < 0x20 \<or> isLeadingSurrogate c \<or> isTrailingSurrogate c then UnicodeEscape c
      else [c])"

fun quoteBody :: "jsstring \<Rightarrow> jsstring" where
  "quoteBody [] = []"
| "quoteBody [c] = quoteUnit c"
| "quoteBody (c # d # ds) =
     (if isLeadingSurrogate c \<and> isTrailingSurrogate d then c # d # quoteBody ds
      else quoteUnit c @ quoteBody (d # ds))"

definition QuoteJSONString :: "jsstring \<Rightarrow> jsstring" where
  "QuoteJSONString s = 0x22 # quoteBody s @ [0x22]"

text \<open>\<open>JSON.stringify(xs)\<close> for an array of strings \<open>xs\<close>.\<close>

definition JSON_stringify :: "jsstring list \<Rightarrow> jsstring" where
  "JSON_stringify xs = 0x5B # join [0x2C] (map QuoteJSONString xs) @ [0x5D]"

subsection \<open>Decoding\<close>

text \<open>
  Modelled from the spec: the decoder of the array encoding is not in the sources
  (no file reads the encoded fields back). The spec's decoding of the
  "structured array-encoding" is taken to be \<open>JSON.parse\<close> on the JSON grammar
  (ECMA-404), restricted to arrays of strings: any other text is rejected with
  \<open>None\<close>. All definitions of this subsection belong to it.
\<close>

definition isJSONWhiteSpace :: "jschar \<Rightarrow> bool" where
  "isJSONWhiteSpace c \<longleftrightarrow> c = 0x20 \<or> c = 0x09 \<or> c = 0x0A \<or> c = 0x0D"

definition simpleEscape :: "jschar \<Rightarrow> jschar option" where
  "simpleEscape e =
     (if e = 0x22 then Some 0x22
      else if e = 0x5C then Some 0x5C
      else if e = 0x2F then Some 0x2F
      else if e = 0x62 then Some 0x08
      else if e = 0x66 then Some 0x0C
      else if e = 0x6E then Some 0x0A
      else if e = 0x72 then Some 0x0D
      else if e = 0x74 then Some 0x09
      else None)"

definition hex4Value :: "jschar \<Rightarrow> jschar \<Rightarrow> jschar \<Rightarrow> jschar \<Rightarrow> jschar option" where
  "hex4Value a b c d =
     (case (digitValue a, digitValue b, digitValue c, digitValue d) of
        (Some x, Some y, Some z, Some w) \<Rightarrow> Some (of_nat (x * 4096 + y * 256 + z * 16 + w))
      | _ \<Rightarrow> None)"

datatype mode = Start | First | InString | AfterValue | AfterComma | Done

text \<open>
  Modelled from the spec: the decoder reads the text one code unit at a time;
  \<open>cur\<close> is the string being read and \<open>acc\<close> the strings read so far, both
  reversed.
\<close>

fun parseArray :: "mode \<Rightarrow> jsstring \<Rightarrow> jsstring list \<Rightarrow> jsstring \<Rightarrow> jsstring list option" where
  "parseArray m cur acc [] = (if m = Done then Some (rev acc) else None)"
| "parseArray m cur acc (c # cs) =
     (case m of
        Start \<Rightarrow>
          if isJSONWhiteSpace c then parseArray Start cur acc cs
          else if c = 0x5B then parseArray First cur acc cs
          else None
      | First \<Rightarrow>
          if isJSONWhiteSpace c then parseArray First cur acc cs
          else if c = 0x5D then parseArray Done cur acc cs
          else if c = 0x22 then parseArray InString [] acc cs
          else None
      | InString \<Rightarrow>
          if c = 0x22 then parseArray AfterValue [] (rev cur # acc) cs
          else if c = 0x5C then
            (case cs of
               [] \<Rightarrow> None
             | e # r \<Rightarrow>
                 if e = 0x75 then
                   (case r of
                      h1 # h2 # h3 # h4 # r' \<Rightarrow>
                        (case hex4Value h1 h2 h3 h4 of
                           None \<Rightarrow> None
                         | Some u \<Rightarrow> parseArray InString (u # cur) acc r')
                    | _ \<Rightarrow> None)
                 else
                   (case simpleEscape e of
                      None \<Rightarrow> None
                    | Some u \<Rightarrow> parseArray InString (u # cur) acc r))
          else if c < 0x20 then None
          else parseArray InString (c # cur) acc cs
      | AfterValue \<Rightarrow>
          if isJSONWhiteSpace c then parseArray AfterValue cur acc cs
          else if c = 0x2C then parseArray AfterComma cur acc cs
          else if c = 0x5D then parseArray Done cur acc cs
          else None
      | AfterComma \<Rightarrow>
          if isJSONWhiteSpace c then parseArray AfterComma cur acc cs
          else if c = 0x22 then parseArray InString [] acc cs
          else None
      | Done \<Rightarrow>
          if isJSONWhiteSpace c then parseArray Done cur acc cs
          else None)"

text \<open>
  Modelled from the spec: \<open>JSON.parse(s)\<close> for a text \<open>s\<close> that is an array of
  strings.
\<close>

definition JSON_parse :: "jsstring \<Rightarrow> jsstring list option" where
  "JSON_parse s = parseArray Start [] [] s"

section \<open>The profile transformer: \<open>completeUserData\<close> of handlePsychologicalComplete\<close>

text \<open>\<open>Number(token.split('_')[0]) || 0\<close>\<close>

definition timeCommitmentOf :: "jsstring \<Rightarrow> jsnum" where
  "timeCommitmentOf token =
     (let n = (case split 0x5F token of [] \<Rightarrow> NaN | x # _ \<Rightarrow> Number x)
      in if ToBoolean (JNum n) then n else Fin 0)"

text \<open>\<open>{ low: 1, moderate: 2, high: 3 }[token] || 0\<close>\<close>

definition stressLevelOf :: "jsstring \<Rightarrow> jsvalue" where
  "stressLevelOf token =
     logical_or
       (get_property [(js ''low'', Fin 1), (js ''moderate'', Fin 2), (js ''high'', Fin 3)] token)
       (JNum (Fin 0))"

text \<open>\<open>{ poor: 1, fair: 2, good: 3, excellent: 4 }[token] || 0\<close>\<close>

definition sleepQualityOf :: "jsstring \<Rightarrow> jsvalue" where
  "sleepQualityOf token =
     logical_or
       (get_property
          [(js ''poor'', Fin 1), (js ''fair'', Fin 2), (js ''good'', Fin 3),
           (js ''excellent'', Fin 4)] token)
       (JNum (Fin 0))"

text \<open>
  The object literal \<open>completeUserData\<close>. \<open>Number\<close> of a number and \<open>String\<close>
  of a string are the identity.
\<close>

definition completeUserData ::
  "RegisterFormData \<Rightarrow> FitnessAssessmentFormData \<Rightarrow> PsychologicalAssessmentData
     \<Rightarrow> AnalysisResponse \<Rightarrow> InsertUser" where
  "completeUserData reg fit assessmentData analysis =
     \<lparr> RegisterFormData.username = RegisterFormData.username reg,
       password = RegisterFormData.password reg,
       InsertUser.age = basicInfo.age (basicInfo fit),
       gender = basicInfo.gender (basicInfo fit),
       heightFeet = basicInfo.heightFeet (basicInfo fit),
       heightInches = basicInfo.heightInches (basicInfo fit),
       weight = basicInfo.weight (basicInfo fit),
       fitnessGoal = fitnessProfile.fitnessGoal (fitnessProfile fit),
       experienceLevel = fitnessProfile.experienceLevel (fitnessProfile fit),
       currentActivityLevel = fitnessProfile.currentActivityLevel (fitnessProfile fit),
       workoutPreferences =
         JSON_stringify (fitnessProfile.workoutPreferences (fitnessProfile fit)),
       motivationFactors =
         JSON_stringify (underlyingMotivations (AnalysisResponse.motivationAnalysis analysis)),
       pastAttempts = Fin 0,
       confidenceLevel =
         motivationAnalysis.readinessScore (AnalysisResponse.motivationAnalysis analysis),
       timeCommitment =
         timeCommitmentOf (lifestyle.timeCommitment (FitnessAssessmentFormData.lifestyle fit)),
       obstacles = join (js '', '') (barriers (readinessAssessment assessmentData)),
       stressLevel =
         stressLevelOf (lifestyle.stressLevel (FitnessAssessmentFormData.lifestyle fit)),
       sleepQuality =
         sleepQualityOf (lifestyle.sleepQuality (FitnessAssessmentFormData.lifestyle fit)),
       dietaryPreferences = js ''balanced'',
       supplementPreferences = js ''none'',
       occupationType = lifestyle.occupationType (FitnessAssessmentFormData.lifestyle fit),
       workSchedule = lifestyle.workSchedule (FitnessAssessmentFormData.lifestyle fit),
       injuries = None,
       medicalConditions = None,
       additionalNotes = None \<rparr>"

section \<open>The stage controller: the handlers of AuthPage\<close>

datatype AssessmentStep = Fitness | Psychological | Analyzing | Results

text \<open>The \<open>useState\<close> cells of the page.\<close>

record AuthPage =
  showAssessment :: bool
  assessmentStep :: AssessmentStep
  initialRegData :: "RegisterFormData option"
  fitnessData :: "FitnessAssessmentFormData option"
  results :: "ComprehensiveResults option"
  isAnalyzing :: bool

definition initialState :: AuthPage where
  "initialState =
     \<lparr> showAssessment = False, assessmentStep = Fitness, initialRegData = None,
       fitnessData = None, results = None, isAnalyzing = False \<rparr>"

text \<open>
  What a rejected call throws: an \<open>Error\<close> with its message, or any other value
  (\<open>error instanceof Error\<close> is false).
\<close>

datatype thrown = Error jsstring | NotAnError

record toast =
  title :: jsstring
  description :: jsstring
  variant :: "jsstring option"

datatype remote = CheckUsername | AnalyzeAssessment | GenerateWorkout | Register

datatype request =
    CheckUsernameRequest jsstring
  | AnalyzeAssessmentRequest analysisRequest
  | GenerateWorkoutRequest workoutRequest
  | RegisterRequest InsertUser

fun remoteOf :: "request \<Rightarrow> remote" where
  "remoteOf (CheckUsernameRequest _) = CheckUsername"
| "remoteOf (AnalyzeAssessmentRequest _) = AnalyzeAssessment"
| "remoteOf (GenerateWorkoutRequest _) = GenerateWorkout"
| "remoteOf (RegisterRequest _) = Register"

text \<open>
  What a handler does besides updating the page state, in the order it happens:
  a remote call is issued, the awaited call resolves or rejects, a toast is shown,
  the registered user is stored (\<open>setUser\<close>), the browser is sent to another page.
\<close>

datatype event =
    Issued request
  | Resolved remote
  | Rejected remote
  | Toast toast
  | SetUser User
  | Navigate jsstring

text \<open>
  The remote services (\<open>api\<close> of lib/api-service, which is not part of the
  sources): each call either throws or returns its answer. The answer of
  \<open>checkUsername\<close> is the \<open>available\<close> flag of the response.
\<close>

record api =
  checkUsername :: "jsstring \<Rightarrow> thrown + bool"
  analyzeAssessment :: "analysisRequest \<Rightarrow> thrown + AnalysisResponse"
  generateWorkout :: "workoutRequest \<Rightarrow> thrown + WorkoutPlanResponse"
  register :: "InsertUser \<Rightarrow> thrown + User"

definition handleInitialRegister :: "api \<Rightarrow> RegisterFormData \<Rightarrow> AuthPage \<Rightarrow> AuthPage \<times> event list" where
  "handleInitialRegister api data s =
     (let req = CheckUsernameRequest (RegisterFormData.username data)
      in case checkUsername api (RegisterFormData.username data) of
           Inr available \<Rightarrow>
             if \<not> available then
               (s, [Issued req, Resolved CheckUsername,
                    Toast \<lparr> title = js ''Registration Error'',
                            description = js ''Username already exists'',
                            variant = Some (js ''destructive'') \<rparr>])
             else
               (s\<lparr> initialRegData := Some data, showAssessment := True \<rparr>,
                [Issued req, Resolved CheckUsername])
         | Inl error \<Rightarrow>
             (s, [Issued req, Rejected CheckUsername,
                  Toast \<lparr> title = js ''Error'',
                          description = js ''Failed to check username availability'',
                          variant = Some (js ''destructive'') \<rparr>]))"

definition handleFitnessComplete :: "FitnessAssessmentFormData \<Rightarrow> AuthPage \<Rightarrow> AuthPage" where
  "handleFitnessComplete data s = s\<lparr> fitnessData := Some data, assessmentStep := Psychological \<rparr>"

text \<open>The request bodies built by handlePsychologicalComplete.\<close>

definition analysisRequestOf ::
  "FitnessAssessmentFormData \<Rightarrow> PsychologicalAssessmentData \<Rightarrow> analysisRequest" where
  "analysisRequestOf fit assessmentData =
     \<lparr> analysisRequest.psychologicalNarrative =
         readinessAssessment.psychologicalNarrative (readinessAssessment assessmentData),
       efficacyBeliefs = readinessAssessment.efficacyBeliefs (readinessAssessment assessmentData),
       motivations = readinessAssessment.motivations (readinessAssessment assessmentData),
       challenges = readinessAssessment.challenges (readinessAssessment assessmentData),
       readinessScore = readinessAssessment.readinessScore (readinessAssessment assessmentData),
       userData =
         \<lparr> userData.age = basicInfo.age (basicInfo fit),
           experienceLevel = fitnessProfile.experienceLevel (fitnessProfile fit),
           currentActivityLevel = fitnessProfile.currentActivityLevel (fitnessProfile fit),
           sleepQuality = lifestyle.sleepQuality (FitnessAssessmentFormData.lifestyle fit),
           stressLevel = lifestyle.stressLevel (FitnessAssessmentFormData.lifestyle fit),
           workoutPreferences = fitnessProfile.workoutPreferences (fitnessProfile fit),
           timeCommitment =
             lifestyle.timeCommitment (FitnessAssessmentFormData.lifestyle fit) \<rparr> \<rparr>"

definition workoutRequestOf ::
  "FitnessAssessmentFormData \<Rightarrow> PsychologicalAssessmentData \<Rightarrow> workoutRequest" where
  "workoutRequestOf fit assessmentData =
     \<lparr> workoutRequest.fitnessGoal = fitnessProfile.fitnessGoal (fitnessProfile fit),
       experienceLevel = fitnessProfile.experienceLevel (fitnessProfile fit),
       age = basicInfo.age (basicInfo fit),
       gender = basicInfo.gender (basicInfo fit),
       currentActivityLevel = fitnessProfile.currentActivityLevel (fitnessProfile fit),
       workoutPreferences = fitnessProfile.workoutPreferences (fitnessProfile fit),
       obstacles = barriers (readinessAssessment assessmentData),
       timeCommitment =
         lifestyle.timeCommitment (FitnessAssessmentFormData.lifestyle fit) \<rparr>"

text \<open>
  The \<open>catch\<close> block of handlePsychologicalComplete followed by its \<open>finally\<close>:
  the error toast and the reset of four state cells, then \<open>setIsAnalyzing(false)\<close>.
  The \<open>results\<close> cell is not written. (The \<open>console.error\<close> line leaves no trace
  in the model.)
\<close>

definition catchBlock :: "thrown \<Rightarrow> AuthPage \<Rightarrow> AuthPage \<times> event list" where
  "catchBlock error s =
     (s\<lparr> showAssessment := False, initialRegData := None, fitnessData := None,
         assessmentStep := Fitness, isAnalyzing := False \<rparr>,
      [Toast \<lparr> title = js ''Error'',
               description =
                 (case error of
                    Error m \<Rightarrow> m
                  | NotAnError \<Rightarrow> js ''Failed to complete registration''),
               variant = Some (js ''destructive'') \<rparr>])"

text \<open>
  \<open>registerMutation.mutateAsync\<close> (hooks/use-auth.ts): the call of \<open>api.register\<close>;
  on success \<open>onSuccess\<close> stores the user and sends the browser to the dashboard
  before the awaiting handler continues.
\<close>

definition mutateAsync :: "api \<Rightarrow> InsertUser \<Rightarrow> (thrown + User) \<times> event list" where
  "mutateAsync api data =
     (case register api data of
        Inl error \<Rightarrow> (Inl error, [Issued (RegisterRequest data), Rejected Register])
      | Inr user \<Rightarrow>
          (Inr user,
           [Issued (RegisterRequest data), Resolved Register, SetUser user,
            Navigate (js ''/dashboard'')]))"

text \<open>
  handlePsychologicalComplete. The title of the success toast is the text of the
  source file, code unit by code unit.
\<close>

definition handlePsychologicalComplete ::
  "api \<Rightarrow> PsychologicalAssessmentData \<Rightarrow> AuthPage \<Rightarrow> AuthPage \<times> event list" where
  "handlePsychologicalComplete api assessmentData s =
     (case (initialRegData s, fitnessData s) of
        (Some reg, Some fit) \<Rightarrow>
          (let s1 = s\<lparr> isAnalyzing := True, assessmentStep := Analyzing \<rparr>;
               req1 = analysisRequestOf fit assessmentData
           in case analyzeAssessment api req1 of
                Inl error \<Rightarrow>
                  (let (s', evs) = catchBlock error s1
                   in (s', [Issued (AnalyzeAssessmentRequest req1), Rejected AnalyzeAssessment] @ evs))
              | Inr analysis \<Rightarrow>
                  (let req2 = workoutRequestOf fit assessmentData
                   in case generateWorkout api req2 of
                        Inl error \<Rightarrow>
                          (let (s', evs) = catchBlock error s1
                           in (s', [Issued (AnalyzeAssessmentRequest req1), Resolved AnalyzeAssessment,
                                    Issued (GenerateWorkoutRequest req2), Rejected GenerateWorkout]
                                   @ evs))
                      | Inr plan \<Rightarrow>
                          (let s2 = s1\<lparr> results :=
                                          Some \<lparr> ComprehensiveResults.motivationAnalysis =
                                                   AnalysisResponse.motivationAnalysis analysis,
                                                 milestones = AnalysisResponse.milestones analysis,
                                                 successPrediction =
                                                   AnalysisResponse.successPrediction analysis,
                                                 timelinePrediction =
                                                   AnalysisResponse.timelinePrediction analysis,
                                                 workoutPlan = Some plan \<rparr>,
                                        assessmentStep := Results \<rparr>;
                               calls = [Issued (AnalyzeAssessmentRequest req1), Resolved AnalyzeAssessment,
                                        Issued (GenerateWorkoutRequest req2), Resolved GenerateWorkout]
                           in case mutateAsync api (completeUserData reg fit assessmentData analysis) of
                                (Inl error, mevs) \<Rightarrow>
                                  (let (s', evs) = catchBlock error s2
                                   in (s', calls @ mevs @ evs))
                              | (Inr user, mevs) \<Rightarrow>
                                  (s2\<lparr> isAnalyzing := False \<rparr>,
                                   calls @ mevs @
                                   [Toast \<lparr> title = js ''Success! '' @ [0xF0, 0x178, 0x17D, 0x2030],
                                            description =
                                              js ''Your account has been created. Welcome to your fitness journey!'',
                                            variant = None \<rparr>]))))
      | _ \<Rightarrow> (s, []))"

text \<open>
  What the page shows to a visitor who is not logged in (the JSX after the
  handlers): the assessment cards while \<open>showAssessment\<close> holds, the login and
  registration forms otherwise. The results card needs both the step \<open>results\<close>
  and stored results.
\<close>

datatype view =
    AuthForms
  | FitnessCard
  | PsychologicalCard
  | AnalyzingCard
  | ResultsCard ComprehensiveResults
  | NoCard

definition render :: "AuthPage \<Rightarrow> view" where
  "render s =
     (if showAssessment s then
        (case assessmentStep s of
           Fitness \<Rightarrow> FitnessCard
         | Psychological \<Rightarrow> PsychologicalCard
         | Analyzing \<Rightarrow> AnalyzingCard
         | Results \<Rightarrow> (case results s of None \<Rightarrow> NoCard | Some r \<Rightarrow> ResultsCard r))
      else AuthForms)"

subsection \<open>Remote calls in a trace of events\<close>

datatype callEvent = Call remote | Return remote | Throw remote

fun callsOf :: "event list \<Rightarrow> callEvent list" where
  "callsOf [] = []"
| "callsOf (Issued r # es) = Call (remoteOf r) # callsOf es"
| "callsOf (Resolved k # es) = Return k # callsOf es"
| "callsOf (Rejected k # es) = Throw k # callsOf es"
| "callsOf (_ # es) = callsOf es"

text \<open>
  The largest number of calls in flight at any moment of a trace that starts with
  \<open>n\<close> calls in flight.
\<close>

fun inFlightPeak :: "nat \<Rightarrow> callEvent list \<Rightarrow> nat" where
  "inFlightPeak n [] = n"
| "inFlightPeak n (Call k # es) = max n (inFlightPeak (Suc n) es)"
| "inFlightPeak n (Return k # es) = max n (inFlightPeak (n - 1) es)"
| "inFlightPeak n (Throw k # es) = max n (inFlightPeak (n - 1) es)"

section \<open>Psychological input collection: the two multi-line fields\<close>

text \<open>
  \<open>e.target.value.split("\n").filter(line => line.trim() !== "")\<close>, the value
  both text areas hand to \<open>field.onChange\<close>.
\<close>

definition onChangeLines :: "jsstring \<Rightarrow> jsstring list" where
  "onChangeLines text = filter (\<lambda>line. trim line \<noteq> []) (split 0x0A text)"

definition barriersOnChange :: "jsstring \<Rightarrow> readinessAssessment \<Rightarrow> readinessAssessment" where
  "barriersOnChange text form = form\<lparr> barriers := onChangeLines text \<rparr>"

definition supportSystemOnChange :: "jsstring \<Rightarrow> readinessAssessment \<Rightarrow> readinessAssessment" where
  "supportSystemOnChange text form = form\<lparr> supportSystem := onChangeLines text \<rparr>"

text \<open>A text typed into the barriers field: two entries, blank lines between and after.\<close>

definition typedBarriers :: jsstring where
  "typedBarriers = js ''Work stress'' @ [0x0A, 0x20, 0x09, 0x0A, 0x0A] @ js ''Self-doubt'' @ [0x0A]"

section \<open>A concrete onboarding run\<close>

text \<open>
  The inputs of one run, used to evaluate the handlers: the user \<open>alex\<close>, a
  fitness assessment picked from the options of the form, a psychological
  assessment with one barrier, and the answers of the remote services.
\<close>

definition alexCredential :: RegisterFormData where
  "alexCredential = \<lparr> RegisterFormData.username = js ''alex'', password = js ''hunter22'' \<rparr>"

definition alexFitness :: FitnessAssessmentFormData where
  "alexFitness =
     \<lparr> basicInfo =
         \<lparr> basicInfo.age = Fin 30, gender = js ''male'', heightFeet = Fin 5,
           heightInches = Fin 10, weight = js ''180'' \<rparr>,
       fitnessProfile =
         \<lparr> fitnessProfile.fitnessGoal = js ''muscle_gain'',
           experienceLevel = js ''intermediate'',
           currentActivityLevel = js ''moderately_active'',
           workoutPreferences = [js ''Strength Training''] \<rparr>,
       lifestyle =
         \<lparr> lifestyle.timeCommitment = js ''3-4_hours'', occupationType = js ''sedentary'',
           workSchedule = js ''regular'', sleepQuality = js ''good'',
           stressLevel = js ''moderate'' \<rparr> \<rparr>"

definition alexPsychological :: PsychologicalAssessmentData where
  "alexPsychological =
     \<lparr> emotionalDrivers =
         \<lparr> current = [js ''Hopeful''], desired = [js ''Strong''], impact = Fin 5 \<rparr>,
       personalVision = \<lparr> oneYearGoal = js ''Bench 225'', visionSatisfaction = Fin 5 \<rparr>,
       readinessAssessment =
         \<lparr> readinessAssessment.efficacyBeliefs = js ''I can do it'',
           motivations = js ''Health'',
           challenges = js ''Time'',
           readinessScore = Fin 7,
           barriers = [js ''time management''],
           supportSystem = [],
           psychologicalNarrative = js ''Ready to start'' \<rparr> \<rparr>"

definition alexAnalysis :: AnalysisResponse where
  "alexAnalysis =
     \<lparr> AnalysisResponse.motivationAnalysis =
         \<lparr> underlyingMotivations = [js ''health''],
           motivationAnalysis.readinessScore = Fin 72,
           analysisFactors =
             \<lparr> motivation = Fin 70, commitment = Fin 70, fitnessLevel = Fin 60,
               analysisFactors.lifestyle = Fin 60, narrativeFactor = Fin 50 \<rparr> \<rparr>,
       milestones =
         \<lparr> shortTerm = [], midTerm = [], longTerm = [], explanation = js ''plan'' \<rparr>,
       successPrediction =
         \<lparr> successProbability = Fin 80, successPrediction.confidenceScore = Fin 70,
           keyFactors = [], recommendations = [] \<rparr>,
       timelinePrediction =
         \<lparr> estimatedWeeks = Fin 12, timelinePrediction.confidenceScore = Fin 70,
           keyFactors = [], recommendations = [] \<rparr> \<rparr>"

definition alexPlan :: WorkoutPlanResponse where
  "alexPlan =
     \<lparr> message = js ''Three sessions a week'', biology = None, psychology = None,
       suggestions = [] \<rparr>"

text \<open>
  Services that report the name available, answer the analysis and the plan, and
  reject the registration (the name was taken in the meantime).
\<close>

definition registrationRejected :: api where
  "registrationRejected =
     \<lparr> checkUsername = (\<lambda>name. Inr True),
       analyzeAssessment = (\<lambda>req. Inr alexAnalysis),
       generateWorkout = (\<lambda>req. Inr alexPlan),
       register = (\<lambda>user. Inl (Error (js ''Username already exists''))) \<rparr>"

text \<open>Services on which the whole run succeeds.\<close>

definition allAvailable :: api where
  "allAvailable =
     \<lparr> checkUsername = (\<lambda>name. Inr True),
       analyzeAssessment = (\<lambda>req. Inr alexAnalysis),
       generateWorkout = (\<lambda>req. Inr alexPlan),
       register = (\<lambda>user. Inr \<lparr> userId = Fin 1, userName = RegisterFormData.username user \<rparr>) \<rparr>"

text \<open>Services that report every name taken, and services that cannot be reached.\<close>

definition nameTaken :: api where
  "nameTaken = allAvailable\<lparr> checkUsername := (\<lambda>name. Inr False) \<rparr>"

definition unreachable :: api where
  "unreachable =
     \<lparr> checkUsername = (\<lambda>name. Inl (Error (js ''Failed to fetch''))),
       analyzeAssessment = (\<lambda>req. Inl (Error (js ''Failed to fetch''))),
       generateWorkout = (\<lambda>req. Inl (Error (js ''Failed to fetch''))),
       register = (\<lambda>user. Inl (Error (js ''Failed to fetch''))) \<rparr>"

text \<open>The page after the credential and the fitness assessment were accepted.\<close>

definition alexCollected :: AuthPage where
  "alexCollected =
     handleFitnessComplete alexFitness
       (fst (handleInitialRegister allAvailable alexCredential initialState))"

section \<open>Properties of the profile transformer\<close>

subsection \<open>Time commitment, stress level and sleep quality\<close>

lemma Number_3_4: "Number (js ''3-4'') = NaN"
  by (simp add: Number_def js_def trim_def isWhiteSpace_def nonDecimalRadix_def
      strDecimalLiteral_def unsignedDecimal_def isDigit_def exponentPart_def)

lemma Number_5_6: "Number (js ''5-6'') = NaN"
  by (simp add: Number_def js_def trim_def isWhiteSpace_def nonDecimalRadix_def
      strDecimalLiteral_def unsignedDecimal_def isDigit_def exponentPart_def)

lemma Number_7_plus: "Number (js ''7+'') = NaN"
  by (simp add: Number_def js_def trim_def isWhiteSpace_def nonDecimalRadix_def
      strDecimalLiteral_def unsignedDecimal_def isDigit_def exponentPart_def)

lemma Number_3: "Number (js ''3'') = Fin 3"
  by (simp add: Number_def js_def trim_def isWhiteSpace_def nonDecimalRadix_def
      strDecimalLiteral_def unsignedDecimal_def isDigit_def exponentPart_def radixValue_def digitValue_def)

lemma split_3_4_hours: "split 0x5F (js ''3-4_hours'') = [js ''3-4'', js ''hours'']"
  by (simp add: js_def)

lemma split_5_6_hours: "split 0x5F (js ''5-6_hours'') = [js ''5-6'', js ''hours'']"
  by (simp add: js_def)

lemma split_7_hours: "split 0x5F (js ''7+_hours'') = [js ''7+'', js ''hours'']"
  by (simp add: js_def)

lemma timeCommitmentOf_NaN:
  "split 0x5F token = x # xs \<Longrightarrow> Number x = NaN \<Longrightarrow> timeCommitmentOf token = Fin 0"
  by (simp add: timeCommitmentOf_def)

text \<open>
  C1. The record's numeric \<open>timeCommitment\<close> is meant to be the numeric prefix of
  the bucket token (\<open>"3-4_hours"\<close> gives 3, \<open>"5-6_hours"\<close> gives 5, \<open>"7+_hours"\<close>
  gives 7, no numeric prefix gives 0). The code applies \<open>Number\<close> to the whole text
  before the underscore; \<open>"3-4"\<close>, \<open>"5-6"\<close> and \<open>"7+"\<close> are not numeric literals,
  so each of the three tokens gives 0.
\<close>

theorem timeCommitment_of_bucket_tokens:
  "timeCommitmentOf (js ''3-4_hours'') = Fin 0
   \<and> timeCommitmentOf (js ''5-6_hours'') = Fin 0
   \<and> timeCommitmentOf (js ''7+_hours'') = Fin 0"
  by (simp add: timeCommitmentOf_def split_3_4_hours split_5_6_hours split_7_hours
      Number_3_4 Number_5_6 Number_7_plus)

lemma timeCommitmentOf_3_hours: "timeCommitmentOf (js ''3_hours'') = Fin 3"
proof -
  have "split 0x5F (js ''3_hours'') = [js ''3'', js ''hours'']" by (simp add: js_def)
  then show ?thesis by (simp add: timeCommitmentOf_def Number_3)
qed

lemma stressLevelOf_table:
  "stressLevelOf (js ''low'') = JNum (Fin 1)"
  "stressLevelOf (js ''moderate'') = JNum (Fin 2)"
  "stressLevelOf (js ''high'') = JNum (Fin 3)"
  by (simp_all add: stressLevelOf_def get_property_def logical_or_def js_def)

lemma sleepQualityOf_table:
  "sleepQualityOf (js ''poor'') = JNum (Fin 1)"
  "sleepQualityOf (js ''fair'') = JNum (Fin 2)"
  "sleepQualityOf (js ''good'') = JNum (Fin 3)"
  "sleepQualityOf (js ''excellent'') = JNum (Fin 4)"
  by (simp_all add: sleepQualityOf_def get_property_def logical_or_def js_def)

lemma stressLevelOf_other:
  "token \<notin> {js ''low'', js ''moderate'', js ''high''} \<Longrightarrow> token \<notin> set Object_prototype_names
     \<Longrightarrow> stressLevelOf token = JNum (Fin 0)"
  by (simp add: stressLevelOf_def get_property_def logical_or_def)

lemma sleepQualityOf_other:
  "token \<notin> {js ''poor'', js ''fair'', js ''good'', js ''excellent''}
     \<Longrightarrow> token \<notin> set Object_prototype_names
     \<Longrightarrow> sleepQualityOf token = JNum (Fin 0)"
  by (simp add: sleepQualityOf_def get_property_def logical_or_def)

lemma stressLevelOf_unknown: "stressLevelOf (js ''unknown'') = JNum (Fin 0)"
  by (simp add: stressLevelOf_def get_property_def logical_or_def js_def Object_prototype_names_def)

text \<open>
  C4. The stress-level mapping is meant to send \<open>low\<close>, \<open>moderate\<close>, \<open>high\<close> to
  1, 2, 3 and the sleep-quality mapping \<open>poor\<close>, \<open>fair\<close>, \<open>good\<close>, \<open>excellent\<close> to
  1, 2, 3, 4, and every other token to 0. Both are total, and the listed tokens
  map as stated (\<open>stressLevelOf_table\<close>, \<open>sleepQualityOf_table\<close>), but the lookup
  in the object literal also finds the members inherited from
  \<open>Object.prototype\<close>: the token \<open>constructor\<close> is mapped to that member, which is
  not 0 and not a number.
\<close>

theorem level_of_inherited_name:
  "stressLevelOf (js ''constructor'') = ObjectPrototypeMember (js ''constructor'')
   \<and> sleepQualityOf (js ''constructor'') = ObjectPrototypeMember (js ''constructor'')"
  by (simp add: stressLevelOf_def sleepQualityOf_def get_property_def logical_or_def js_def
      Object_prototype_names_def)

subsection \<open>The record of a whole run\<close>

text \<open>
  C3. For the run of \<open>alex\<close> (stress level \<open>moderate\<close>, sleep quality \<open>good\<close>,
  time commitment \<open>3-4_hours\<close>, the one barrier \<open>time management\<close>, analysis
  readiness score 72) the record is meant to have \<open>stressLevel = 2\<close>,
  \<open>sleepQuality = 3\<close>, \<open>timeCommitment = 3\<close>, \<open>confidenceLevel = 72\<close> and
  \<open>obstacles = "time management"\<close>. The code builds all of these but the time
  commitment, which is 0.
\<close>

theorem alex_record_fields:
  "InsertUser.stressLevel
       (completeUserData alexCredential alexFitness alexPsychological alexAnalysis) = JNum (Fin 2)
   \<and> InsertUser.sleepQuality
       (completeUserData alexCredential alexFitness alexPsychological alexAnalysis) = JNum (Fin 3)
   \<and> InsertUser.timeCommitment
       (completeUserData alexCredential alexFitness alexPsychological alexAnalysis) = Fin 0
   \<and> confidenceLevel
       (completeUserData alexCredential alexFitness alexPsychological alexAnalysis) = Fin 72
   \<and> InsertUser.obstacles
       (completeUserData alexCredential alexFitness alexPsychological alexAnalysis)
     = js ''time management''"
proof -
  have "lifestyle.stressLevel (FitnessAssessmentFormData.lifestyle alexFitness) = js ''moderate''"
    and "lifestyle.sleepQuality (FitnessAssessmentFormData.lifestyle alexFitness) = js ''good''"
    and "lifestyle.timeCommitment (FitnessAssessmentFormData.lifestyle alexFitness)
      = js ''3-4_hours''"
    by (simp_all add: alexFitness_def)
  moreover have "barriers (readinessAssessment alexPsychological) = [js ''time management'']"
    by (simp add: alexPsychological_def)
  moreover have "motivationAnalysis.readinessScore (AnalysisResponse.motivationAnalysis alexAnalysis)
      = Fin 72"
    by (simp add: alexAnalysis_def)
  moreover have "timeCommitmentOf (js ''3-4_hours'') = Fin 0"
    by (simp add: timeCommitmentOf_def split_3_4_hours Number_3_4)
  ultimately show ?thesis
    by (simp add: completeUserData_def stressLevelOf_table sleepQualityOf_table)
qed

subsection \<open>The array encoding can be decoded\<close>

lemma digitValue_hexDigit: "d < 16 \<Longrightarrow> digitValue (hexDigit d) = Some d"
proof -
  assume "d < 16"
  then have "d = 0 \<or> d = 1 \<or> d = 2 \<or> d = 3 \<or> d = 4 \<or> d = 5 \<or> d = 6 \<or> d = 7
      \<or> d = 8 \<or> d = 9 \<or> d = 10 \<or> d = 11 \<or> d = 12 \<or> d = 13 \<or> d = 14 \<or> d = 15"
    by arith
  then show ?thesis
    by (elim disjE) (simp_all add: digitValue_def hexDigit_def)
qed

lemma nibbles:
  "n div 4096 * 4096 + n div 256 mod 16 * 256 + n div 16 mod 16 * 16 + n mod 16 = (n::nat)"
proof -
  have a: "n = n div 16 * 16 + n mod 16" by simp
  have "n div 16 = n div 16 div 16 * 16 + n div 16 mod 16" by simp
  moreover have "n div 16 div 16 = n div 256" by (simp add: div_mult2_eq [symmetric])
  ultimately have b: "n div 16 = n div 256 * 16 + n div 16 mod 16" by simp
  have "n div 256 = n div 256 div 16 * 16 + n div 256 mod 16" by simp
  moreover have "n div 256 div 16 = n div 4096" by (simp add: div_mult2_eq [symmetric])
  ultimately have c: "n div 256 = n div 4096 * 16 + n div 256 mod 16" by simp
  show ?thesis using a b c by linarith
qed

lemma hex4Value_escape:
  "hex4Value (hexDigit (unat c div 4096)) (hexDigit (unat c div 256 mod 16))
     (hexDigit (unat c div 16 mod 16)) (hexDigit (unat c mod 16)) = Some c"
proof -
  have "unat c < 65536" using unsigned_less [of c] by simp
  then have "unat c div 4096 < 16" by simp
  then show ?thesis
    by (simp add: hex4Value_def digitValue_hexDigit nibbles)
qed

lemma parse_quoteUnit:
  "parseArray InString cur acc (quoteUnit c @ rest) = parseArray InString (c # cur) acc rest"
  unfolding quoteUnit_def
  by (simp add: UnicodeEscape_def Let_def hex4Value_escape simpleEscape_def)

lemma parse_quoteBody:
  "parseArray InString cur acc (quoteBody s @ rest) = parseArray InString (rev s @ cur) acc rest"
proof (induction s arbitrary: cur rule: quoteBody.induct)
  case 1
  then show ?case by simp
next
  case (2 c)
  then show ?case by (simp add: parse_quoteUnit)
next
  case (3 c d ds)
  show ?case
  proof (cases "isLeadingSurrogate c \<and> isTrailingSurrogate d")
    case True
    then have c: "c \<noteq> 0x22" "c \<noteq> 0x5C" "\<not> c < 0x20" and d: "d \<noteq> 0x22" "d \<noteq> 0x5C" "\<not> d < 0x20"
      by (auto simp: isLeadingSurrogate_def isTrailingSurrogate_def word_le_nat_alt word_less_nat_alt)
    have "parseArray InString cur acc (quoteBody (c # d # ds) @ rest)
        = parseArray InString (d # c # cur) acc (quoteBody ds @ rest)"
      using True c d by simp
    also have "\<dots> = parseArray InString (rev ds @ d # c # cur) acc rest"
      using True by (rule "3.IH"(1))
    finally show ?thesis by simp
  next
    case False
    then have "quoteBody (c # d # ds) = quoteUnit c @ quoteBody (d # ds)" by auto
    then have "parseArray InString cur acc (quoteBody (c # d # ds) @ rest)
        = parseArray InString (c # cur) acc (quoteBody (d # ds) @ rest)"
      by (simp only: append_assoc parse_quoteUnit)
    also have "\<dots> = parseArray InString (rev (d # ds) @ c # cur) acc rest"
      using False by (rule "3.IH"(2))
    finally show ?thesis by simp
  qed
qed

lemma parse_QuoteJSONString:
  "parseArray InString [] acc (tl (QuoteJSONString s) @ rest) = parseArray AfterValue [] (s # acc) rest"
  by (simp add: QuoteJSONString_def parse_quoteBody)

lemma QuoteJSONString_Cons: "QuoteJSONString s = 0x22 # tl (QuoteJSONString s)"
  by (simp add: QuoteJSONString_def)

lemma parse_elements:
  "parseArray AfterValue [] acc (concat (map (\<lambda>x. 0x2C # QuoteJSONString x) xs) @ [0x5D])
     = Some (rev acc @ xs)"
proof (induction xs arbitrary: acc)
  case Nil
  then show ?case by (simp add: isJSONWhiteSpace_def)
next
  case (Cons x xs)
  have "parseArray AfterValue [] acc (concat (map (\<lambda>x. 0x2C # QuoteJSONString x) (x # xs)) @ [0x5D])
      = parseArray InString [] acc (tl (QuoteJSONString x) @ concat (map (\<lambda>x. 0x2C # QuoteJSONString x) xs) @ [0x5D])"
    by (simp add: QuoteJSONString_def isJSONWhiteSpace_def)
  also have "\<dots> = parseArray AfterValue [] (x # acc) (concat (map (\<lambda>x. 0x2C # QuoteJSONString x) xs) @ [0x5D])"
    by (rule parse_QuoteJSONString)
  also have "\<dots> = Some (rev (x # acc) @ xs)" by (rule Cons.IH)
  finally show ?case by simp
qed

lemma join_comma:
  "join [0x2C] (map QuoteJSONString (x # xs))
     = QuoteJSONString x @ concat (map (\<lambda>y. 0x2C # QuoteJSONString y) xs)"
  by (induction xs arbitrary: x) simp_all

lemma JSON_parse_stringify: "JSON_parse (JSON_stringify xs) = Some xs"
proof (cases xs)
  case Nil
  then show ?thesis
    by (simp add: JSON_parse_def JSON_stringify_def isJSONWhiteSpace_def)
next
  case (Cons x ys)
  have "JSON_parse (JSON_stringify xs)
      = parseArray InString [] [] (tl (QuoteJSONString x) @ concat (map (\<lambda>y. 0x2C # QuoteJSONString y) ys) @ [0x5D])"
    unfolding JSON_parse_def JSON_stringify_def Cons join_comma
    by (simp add: QuoteJSONString_def isJSONWhiteSpace_def)
  also have "\<dots> = parseArray AfterValue [] [x] (concat (map (\<lambda>y. 0x2C # QuoteJSONString y) ys) @ [0x5D])"
    by (rule parse_QuoteJSONString)
  also have "\<dots> = Some (rev [x] @ ys)" by (rule parse_elements)
  finally show ?thesis using Cons by simp
qed

text \<open>
  C6. For every ordered list of workout preferences (non-empty or not, with or
  without repeated entries) the text stored in the record's \<open>workoutPreferences\<close>
  decodes to that list, in order; \<open>motivationFactors\<close> holds the same encoding of
  the underlying motivations of the analysis.
\<close>

theorem array_encoding_roundtrip:
  "JSON_parse (InsertUser.workoutPreferences (completeUserData reg fit assessmentData analysis))
     = Some (fitnessProfile.workoutPreferences (fitnessProfile fit))
   \<and> JSON_parse (motivationFactors (completeUserData reg fit assessmentData analysis))
     = Some (underlyingMotivations (AnalysisResponse.motivationAnalysis analysis))"
  by (simp add: completeUserData_def JSON_parse_stringify)

theorem array_encoding_roundtrip_witness:
  "JSON_parse (InsertUser.workoutPreferences
       (completeUserData alexCredential alexFitness alexPsychological alexAnalysis))
     = Some [js ''Strength Training'']
   \<and> JSON_parse (motivationFactors
       (completeUserData alexCredential alexFitness alexPsychological alexAnalysis))
     = Some [js ''health'']"
  using array_encoding_roundtrip [of alexCredential alexFitness alexPsychological alexAnalysis]
  by (simp add: alexFitness_def alexAnalysis_def)

section \<open>Properties of input collection\<close>

lemma trim_eq_Nil: "trim l = [] \<longleftrightarrow> (\<forall>c\<in>set l. isWhiteSpace c)"
proof
  assume "trim l = []"
  then have all: "\<forall>y\<in>set (dropWhile isWhiteSpace l). isWhiteSpace y"
    by (simp add: trim_def dropWhile_eq_Nil_conv)
  have "dropWhile isWhiteSpace l = []"
  proof (rule ccontr)
    assume ne: "dropWhile isWhiteSpace l \<noteq> []"
    then have "\<not> isWhiteSpace (hd (dropWhile isWhiteSpace l))" by (rule hd_dropWhile)
    moreover have "hd (dropWhile isWhiteSpace l) \<in> set (dropWhile isWhiteSpace l)"
      using ne by simp
    ultimately show False using all by blast
  qed
  then show "\<forall>c\<in>set l. isWhiteSpace c" by (simp add: dropWhile_eq_Nil_conv)
next
  assume "\<forall>c\<in>set l. isWhiteSpace c"
  then have "dropWhile isWhiteSpace l = []" by (simp add: dropWhile_eq_Nil_conv)
  then show "trim l = []" by (simp add: trim_def del: dropWhile_eq_Nil_conv)
qed

lemma onChangeLines_not_blank:
  "line \<in> set (onChangeLines text) \<Longrightarrow> line \<noteq> [] \<and> trim line \<noteq> [] \<and> (\<exists>c\<in>set line. \<not> isWhiteSpace c)"
proof -
  assume "line \<in> set (onChangeLines text)"
  then have t: "trim line \<noteq> []" by (simp add: onChangeLines_def)
  then have "\<exists>c\<in>set line. \<not> isWhiteSpace c" by (simp add: trim_eq_Nil)
  moreover from this have "line \<noteq> []" by auto
  ultimately show ?thesis using t by simp
qed

text \<open>
  C10. Whatever text is typed into the barriers field or the support-system
  field, every entry handed to the form is a non-blank string: it is not empty,
  and it has a character that \<open>trim\<close> does not remove.
\<close>

theorem collected_lines_not_blank:
  "\<forall>line \<in> set (barriers (barriersOnChange text form))
       \<union> set (supportSystem (supportSystemOnChange text form)).
     line \<noteq> [] \<and> trim line \<noteq> [] \<and> (\<exists>c\<in>set line. \<not> isWhiteSpace c)"
  using onChangeLines_not_blank [of _ "text"]
  by (auto simp: barriersOnChange_def supportSystemOnChange_def)

lemma onChangeLines_example:
  "onChangeLines typedBarriers = [js ''Work stress'', js ''Self-doubt'']"
  by (simp add: typedBarriers_def onChangeLines_def js_def trim_def isWhiteSpace_def)

theorem collected_lines_not_blank_witness:
  "barriers (barriersOnChange typedBarriers (readinessAssessment alexPsychological))
     = [js ''Work stress'', js ''Self-doubt'']
   \<and> trim (js ''Work stress'') \<noteq> [] \<and> trim (js ''Self-doubt'') \<noteq> []"
  using collected_lines_not_blank [of typedBarriers "readinessAssessment alexPsychological"]
  by (simp add: barriersOnChange_def onChangeLines_example)

section \<open>Properties of the stage controller\<close>

subsection \<open>Checking availability\<close>

text \<open>
  C5. When the availability check answers that the name is taken, the handler
  shows the toast "Username already exists" and leaves the page state as it was;
  when it answers that the name is available, the credential is stored and the
  assessment is opened, which shows the fitness card when the step is \<open>fitness\<close>
  (as it is initially and after every rollback).
\<close>

theorem checking_availability:
  "(checkUsername api (RegisterFormData.username data) = Inr False \<longrightarrow>
      handleInitialRegister api data s =
        (s, [Issued (CheckUsernameRequest (RegisterFormData.username data)),
             Resolved CheckUsername,
             Toast \<lparr> title = js ''Registration Error'',
                     description = js ''Username already exists'',
                     variant = Some (js ''destructive'') \<rparr>]))
   \<and> (checkUsername api (RegisterFormData.username data) = Inr True \<longrightarrow>
      fst (handleInitialRegister api data s)
        = s\<lparr> initialRegData := Some data, showAssessment := True \<rparr>
      \<and> (assessmentStep s = Fitness \<longrightarrow>
           render (fst (handleInitialRegister api data s)) = FitnessCard))"
  by (simp add: handleInitialRegister_def render_def)

lemma checkUsername_examples:
  "checkUsername nameTaken name = Inr False"
  "checkUsername allAvailable name = Inr True"
  "checkUsername unreachable name = Inl (Error (js ''Failed to fetch''))"
  by (simp_all add: nameTaken_def allAvailable_def unreachable_def)

lemma username_alex: "RegisterFormData.username alexCredential = js ''alex''"
  by (simp add: alexCredential_def)

theorem checking_availability_witness:
  "handleInitialRegister nameTaken alexCredential initialState =
     (initialState,
      [Issued (CheckUsernameRequest (js ''alex'')), Resolved CheckUsername,
       Toast \<lparr> title = js ''Registration Error'',
               description = js ''Username already exists'',
               variant = Some (js ''destructive'') \<rparr>])
   \<and> initialRegData (fst (handleInitialRegister allAvailable alexCredential initialState))
       = Some alexCredential
   \<and> render (fst (handleInitialRegister allAvailable alexCredential initialState)) = FitnessCard"
proof -
  have step: "assessmentStep initialState = Fitness" by (simp add: initialState_def)
  note taken = checking_availability [where api = nameTaken and data = alexCredential
      and s = initialState]
  note free = checking_availability [where api = allAvailable and data = alexCredential
      and s = initialState]
  from taken have a: "handleInitialRegister nameTaken alexCredential initialState =
     (initialState,
      [Issued (CheckUsernameRequest (js ''alex'')), Resolved CheckUsername,
       Toast \<lparr> title = js ''Registration Error'',
               description = js ''Username already exists'',
               variant = Some (js ''destructive'') \<rparr>])"
    by (simp add: checkUsername_examples username_alex)
  have av: "checkUsername allAvailable (RegisterFormData.username alexCredential) = Inr True"
    by (simp add: checkUsername_examples)
  from free av have b: "fst (handleInitialRegister allAvailable alexCredential initialState)
      = initialState\<lparr> initialRegData := Some alexCredential, showAssessment := True \<rparr>"
    by blast
  from free av step have c:
    "render (fst (handleInitialRegister allAvailable alexCredential initialState)) = FitnessCard"
    by blast
  from b have "initialRegData (fst (handleInitialRegister allAvailable alexCredential initialState))
       = Some alexCredential" by simp
  with a c show ?thesis by simp
qed

text \<open>
  C8. A reachable service answering that the name is taken and a call that
  throws are told apart: the first gives the toast "Username already exists", the
  second the different toast "Failed to check username availability"; in both
  cases the page state is unchanged.
\<close>

theorem availability_conditions_distinct:
  "(checkUsername api (RegisterFormData.username data) = Inr False \<longrightarrow>
      handleInitialRegister api data s =
        (s, [Issued (CheckUsernameRequest (RegisterFormData.username data)),
             Resolved CheckUsername,
             Toast \<lparr> title = js ''Registration Error'',
                     description = js ''Username already exists'',
                     variant = Some (js ''destructive'') \<rparr>]))
   \<and> (checkUsername api (RegisterFormData.username data) = Inl error \<longrightarrow>
      handleInitialRegister api data s =
        (s, [Issued (CheckUsernameRequest (RegisterFormData.username data)),
             Rejected CheckUsername,
             Toast \<lparr> title = js ''Error'',
                     description = js ''Failed to check username availability'',
                     variant = Some (js ''destructive'') \<rparr>]))
   \<and> \<lparr> title = js ''Registration Error'', description = js ''Username already exists'',
         variant = Some (js ''destructive'') \<rparr>
       \<noteq> \<lparr> title = js ''Error'', description = js ''Failed to check username availability'',
           variant = Some (js ''destructive'') \<rparr>"
  by (simp add: handleInitialRegister_def js_def)

theorem availability_conditions_distinct_witness:
  "handleInitialRegister nameTaken alexCredential initialState =
     (initialState,
      [Issued (CheckUsernameRequest (js ''alex'')), Resolved CheckUsername,
       Toast \<lparr> title = js ''Registration Error'',
               description = js ''Username already exists'',
               variant = Some (js ''destructive'') \<rparr>])
   \<and> handleInitialRegister unreachable alexCredential initialState =
     (initialState,
      [Issued (CheckUsernameRequest (js ''alex'')), Rejected CheckUsername,
       Toast \<lparr> title = js ''Error'',
               description = js ''Failed to check username availability'',
               variant = Some (js ''destructive'') \<rparr>])"
proof -
  note taken = availability_conditions_distinct [where api = nameTaken
      and data = alexCredential and s = initialState]
  note down = availability_conditions_distinct [where api = unreachable
      and data = alexCredential and s = initialState and error = "Error (js ''Failed to fetch'')"]
  from taken have a: "handleInitialRegister nameTaken alexCredential initialState =
     (initialState,
      [Issued (CheckUsernameRequest (js ''alex'')), Resolved CheckUsername,
       Toast \<lparr> title = js ''Registration Error'',
               description = js ''Username already exists'',
               variant = Some (js ''destructive'') \<rparr>])"
    by (simp add: checkUsername_examples username_alex)
  from down have b: "handleInitialRegister unreachable alexCredential initialState =
     (initialState,
      [Issued (CheckUsernameRequest (js ''alex'')), Rejected CheckUsername,
       Toast \<lparr> title = js ''Error'',
               description = js ''Failed to check username availability'',
               variant = Some (js ''destructive'') \<rparr>])"
    by (simp add: checkUsername_examples username_alex)
  from a b show ?thesis by simp
qed


subsection \<open>The paths of handlePsychologicalComplete\<close>

lemma alexCollected_eq:
  "alexCollected =
     \<lparr> showAssessment = True, assessmentStep = Psychological,
       initialRegData = Some alexCredential, fitnessData = Some alexFitness,
       results = None, isAnalyzing = False \<rparr>"
  by (simp add: alexCollected_def handleFitnessComplete_def handleInitialRegister_def
      checkUsername_examples initialState_def)

lemma handle_absent:
  assumes "initialRegData s = None \<or> fitnessData s = None"
  shows "handlePsychologicalComplete api assessmentData s = (s, [])"
  using assms by (auto simp: handlePsychologicalComplete_def split: option.splits)

lemma handle_analysis_rejected:
  assumes "initialRegData s = Some reg" and "fitnessData s = Some fit"
    and "analyzeAssessment api (analysisRequestOf fit assessmentData) = Inl error"
  shows "handlePsychologicalComplete api assessmentData s =
     (s\<lparr> showAssessment := False, initialRegData := None, fitnessData := None,
         assessmentStep := Fitness, isAnalyzing := False \<rparr>,
      [Issued (AnalyzeAssessmentRequest (analysisRequestOf fit assessmentData)),
       Rejected AnalyzeAssessment]
      @ snd (catchBlock error s))"
  using assms by (simp add: handlePsychologicalComplete_def catchBlock_def Let_def)

lemma handle_workout_rejected:
  assumes "initialRegData s = Some reg" and "fitnessData s = Some fit"
    and "analyzeAssessment api (analysisRequestOf fit assessmentData) = Inr analysis"
    and "generateWorkout api (workoutRequestOf fit assessmentData) = Inl error"
  shows "handlePsychologicalComplete api assessmentData s =
     (s\<lparr> showAssessment := False, initialRegData := None, fitnessData := None,
         assessmentStep := Fitness, isAnalyzing := False \<rparr>,
      [Issued (AnalyzeAssessmentRequest (analysisRequestOf fit assessmentData)),
       Resolved AnalyzeAssessment,
       Issued (GenerateWorkoutRequest (workoutRequestOf fit assessmentData)),
       Rejected GenerateWorkout]
      @ snd (catchBlock error s))"
  using assms by (simp add: handlePsychologicalComplete_def catchBlock_def Let_def)

lemma handle_register_rejected:
  assumes "initialRegData s = Some reg" and "fitnessData s = Some fit"
    and "analyzeAssessment api (analysisRequestOf fit assessmentData) = Inr analysis"
    and "generateWorkout api (workoutRequestOf fit assessmentData) = Inr plan"
    and "register api (completeUserData reg fit assessmentData analysis) = Inl error"
  shows "handlePsychologicalComplete api assessmentData s =
     (s\<lparr> showAssessment := False, initialRegData := None, fitnessData := None,
         assessmentStep := Fitness, isAnalyzing := False,
         results := Some \<lparr> ComprehensiveResults.motivationAnalysis =
                              AnalysisResponse.motivationAnalysis analysis,
                            milestones = AnalysisResponse.milestones analysis,
                            successPrediction = AnalysisResponse.successPrediction analysis,
                            timelinePrediction = AnalysisResponse.timelinePrediction analysis,
                            workoutPlan = Some plan \<rparr> \<rparr>,
      [Issued (AnalyzeAssessmentRequest (analysisRequestOf fit assessmentData)),
       Resolved AnalyzeAssessment,
       Issued (GenerateWorkoutRequest (workoutRequestOf fit assessmentData)),
       Resolved GenerateWorkout,
       Issued (RegisterRequest (completeUserData reg fit assessmentData analysis)),
       Rejected Register]
      @ snd (catchBlock error s))"
  using assms
  by (simp add: handlePsychologicalComplete_def catchBlock_def mutateAsync_def Let_def)

lemma handle_registered:
  assumes "initialRegData s = Some reg" and "fitnessData s = Some fit"
    and "analyzeAssessment api (analysisRequestOf fit assessmentData) = Inr analysis"
    and "generateWorkout api (workoutRequestOf fit assessmentData) = Inr plan"
    and "register api (completeUserData reg fit assessmentData analysis) = Inr user"
  shows "handlePsychologicalComplete api assessmentData s =
     (s\<lparr> assessmentStep := Results, isAnalyzing := False,
         results := Some \<lparr> ComprehensiveResults.motivationAnalysis =
                              AnalysisResponse.motivationAnalysis analysis,
                            milestones = AnalysisResponse.milestones analysis,
                            successPrediction = AnalysisResponse.successPrediction analysis,
                            timelinePrediction = AnalysisResponse.timelinePrediction analysis,
                            workoutPlan = Some plan \<rparr> \<rparr>,
      [Issued (AnalyzeAssessmentRequest (analysisRequestOf fit assessmentData)),
       Resolved AnalyzeAssessment,
       Issued (GenerateWorkoutRequest (workoutRequestOf fit assessmentData)),
       Resolved GenerateWorkout,
       Issued (RegisterRequest (completeUserData reg fit assessmentData analysis)),
       Resolved Register, SetUser user, Navigate (js ''/dashboard''),
       Toast \<lparr> title = js ''Success! '' @ [0xF0, 0x178, 0x17D, 0x2030],
               description =
                 js ''Your account has been created. Welcome to your fitness journey!'',
               variant = None \<rparr>])"
  using assms
  by (simp add: handlePsychologicalComplete_def mutateAsync_def Let_def)

lemma callsOf_catchBlock: "callsOf (snd (catchBlock error s)) = []"
  by (simp add: catchBlock_def)


lemma alexCollected_present:
  "initialRegData alexCollected = Some alexCredential"
  "fitnessData alexCollected = Some alexFitness"
  by (simp_all add: alexCollected_eq)

lemma allAvailable_answers:
  "analyzeAssessment allAvailable req1 = Inr alexAnalysis"
  "generateWorkout allAvailable req2 = Inr alexPlan"
  "register allAvailable u = Inr \<lparr> userId = Fin 1, userName = RegisterFormData.username u \<rparr>"
  by (simp_all add: allAvailable_def)

lemma registrationRejected_answers:
  "analyzeAssessment registrationRejected req1 = Inr alexAnalysis"
  "generateWorkout registrationRejected req2 = Inr alexPlan"
  "register registrationRejected u = Inl (Error (js ''Username already exists''))"
  by (simp_all add: registrationRejected_def)


subsection \<open>The guard of the completion handler\<close>

text \<open>
  C9. When the stored credential or the stored fitness assessment is absent, the
  completion handler does nothing: the state is unchanged and nothing happens (no
  remote call, no toast). So whenever the handler does anything at all, both
  values are present.
\<close>

theorem completion_guard:
  "(initialRegData s = None \<or> fitnessData s = None \<longrightarrow>
      handlePsychologicalComplete api assessmentData s = (s, []))
   \<and> (snd (handlePsychologicalComplete api assessmentData s) \<noteq> [] \<longrightarrow>
      initialRegData s \<noteq> None \<and> fitnessData s \<noteq> None)"
  by (auto simp: handlePsychologicalComplete_def split: option.splits)

theorem completion_guard_witness:
  "handlePsychologicalComplete allAvailable alexPsychological initialState = (initialState, [])
   \<and> snd (handlePsychologicalComplete allAvailable alexPsychological alexCollected) \<noteq> []
   \<and> initialRegData alexCollected \<noteq> None \<and> fitnessData alexCollected \<noteq> None"
proof -
  have none: "initialRegData initialState = None" by (simp add: initialState_def)
  have calls:
    "snd (handlePsychologicalComplete allAvailable alexPsychological alexCollected) \<noteq> []"
    by (simp add: handle_registered [OF alexCollected_present allAvailable_answers])
  from none completion_guard [where s = initialState and api = allAvailable
      and assessmentData = alexPsychological]
  have a: "handlePsychologicalComplete allAvailable alexPsychological initialState
      = (initialState, [])" by blast
  from calls completion_guard [where s = alexCollected and api = allAvailable
      and assessmentData = alexPsychological]
  have b: "initialRegData alexCollected \<noteq> None \<and> fitnessData alexCollected \<noteq> None" by blast
  from a calls b show ?thesis by blast
qed


subsection \<open>Order of the remote calls\<close>

text \<open>
  C7. In one run of the completion handler the remote calls are strictly
  sequential: the analysis call has returned before the workout call is issued,
  and the workout call has returned before the registration is issued; a call
  that throws ends the run. At no moment is more than one call in flight.
\<close>

theorem remote_calls_sequential:
  "callsOf (snd (handlePsychologicalComplete api assessmentData s))
     \<in> set [[],
            [Call AnalyzeAssessment, Throw AnalyzeAssessment],
            [Call AnalyzeAssessment, Return AnalyzeAssessment,
             Call GenerateWorkout, Throw GenerateWorkout],
            [Call AnalyzeAssessment, Return AnalyzeAssessment,
             Call GenerateWorkout, Return GenerateWorkout,
             Call Register, Throw Register],
            [Call AnalyzeAssessment, Return AnalyzeAssessment,
             Call GenerateWorkout, Return GenerateWorkout,
             Call Register, Return Register]]
   \<and> inFlightPeak 0 (callsOf (snd (handlePsychologicalComplete api assessmentData s))) \<le> 1"
proof (cases "initialRegData s = None \<or> fitnessData s = None")
  case True
  then show ?thesis by (simp add: handle_absent)
next
  case False
  then obtain reg fit where present: "initialRegData s = Some reg" "fitnessData s = Some fit"
    by auto
  show ?thesis
  proof (cases "analyzeAssessment api (analysisRequestOf fit assessmentData)")
    case (Inl error)
    show ?thesis
      by (simp add: handle_analysis_rejected [OF present Inl] callsOf_catchBlock)
  next
    case analysed: (Inr analysis)
    show ?thesis
    proof (cases "generateWorkout api (workoutRequestOf fit assessmentData)")
      case (Inl error)
      show ?thesis
        by (simp add: handle_workout_rejected [OF present analysed Inl] callsOf_catchBlock)
    next
      case planned: (Inr plan)
      show ?thesis
      proof (cases "register api (completeUserData reg fit assessmentData analysis)")
        case (Inl error)
        show ?thesis
          by (simp add: handle_register_rejected [OF present analysed planned Inl]
              callsOf_catchBlock)
      next
        case (Inr user)
        show ?thesis
          by (simp add: handle_registered [OF present analysed planned Inr])
      qed
    qed
  qed
qed

theorem remote_calls_sequential_witness:
  "callsOf (snd (handlePsychologicalComplete allAvailable alexPsychological alexCollected))
     = [Call AnalyzeAssessment, Return AnalyzeAssessment,
        Call GenerateWorkout, Return GenerateWorkout,
        Call Register, Return Register]
   \<and> inFlightPeak 0
        (callsOf (snd (handlePsychologicalComplete allAvailable alexPsychological alexCollected)))
       \<le> 1"
proof -
  have "callsOf (snd (handlePsychologicalComplete allAvailable alexPsychological alexCollected))
     = [Call AnalyzeAssessment, Return AnalyzeAssessment,
        Call GenerateWorkout, Return GenerateWorkout,
        Call Register, Return Register]"
    by (simp add: handle_registered [OF alexCollected_present allAvailable_answers])
  with remote_calls_sequential [of allAvailable alexPsychological alexCollected]
  show ?thesis by blast
qed


subsection \<open>Rollback\<close>

lemma catchBlock_renders_forms: "render (fst (catchBlock error s)) = AuthForms"
  by (simp add: catchBlock_def render_def)

lemma catchBlock_keeps_results: "results (fst (catchBlock error s)) = results s"
  by (simp add: catchBlock_def)

lemma catchBlock_resets:
  "fst (catchBlock error s) =
     s\<lparr> showAssessment := False, initialRegData := None, fitnessData := None,
        assessmentStep := Fitness, isAnalyzing := False \<rparr>"
  by (simp add: catchBlock_def)

lemma fresh_run_analysis_rejected:
  assumes "checkUsername api (RegisterFormData.username data) = Inr True"
    and "analyzeAssessment api (analysisRequestOf fit assessmentData) = Inl error"
  shows "fst (handlePsychologicalComplete api assessmentData
           (handleFitnessComplete fit (fst (handleInitialRegister api data initialState))))
         = initialState"
proof -
  let ?s = "handleFitnessComplete fit (fst (handleInitialRegister api data initialState))"
  have "initialRegData ?s = Some data" "fitnessData ?s = Some fit"
    using assms(1) by (simp_all add: handleFitnessComplete_def handleInitialRegister_def)
  from handle_analysis_rejected [OF this assms(2)] show ?thesis
    using assms(1)
    by (simp add: handleFitnessComplete_def handleInitialRegister_def initialState_def)
qed

lemma fresh_run_workout_rejected:
  assumes "checkUsername api (RegisterFormData.username data) = Inr True"
    and "analyzeAssessment api (analysisRequestOf fit assessmentData) = Inr analysis"
    and "generateWorkout api (workoutRequestOf fit assessmentData) = Inl error"
  shows "fst (handlePsychologicalComplete api assessmentData
           (handleFitnessComplete fit (fst (handleInitialRegister api data initialState))))
         = initialState"
proof -
  let ?s = "handleFitnessComplete fit (fst (handleInitialRegister api data initialState))"
  have "initialRegData ?s = Some data" "fitnessData ?s = Some fit"
    using assms(1) by (simp_all add: handleFitnessComplete_def handleInitialRegister_def)
  from handle_workout_rejected [OF this assms(2,3)] show ?thesis
    using assms(1)
    by (simp add: handleFitnessComplete_def handleInitialRegister_def initialState_def)
qed

text \<open>
  C2. A failure of a remote stage is meant to clear all transient state, so that
  the page is in the state it had before the run began. After a failed analysis
  or a failed workout synthesis it is (\<open>fresh_run_analysis_rejected\<close>,
  \<open>fresh_run_workout_rejected\<close>). When the registration is rejected, the
  \<open>catch\<close> block resets the credential, the fitness data and the step, but the
  results stored before the registration call stay: the page state is not the
  initial one.
\<close>

theorem registration_failure_keeps_results:
  "fst (handlePsychologicalComplete registrationRejected alexPsychological alexCollected)
     = initialState
         \<lparr> results := Some \<lparr> ComprehensiveResults.motivationAnalysis =
                               AnalysisResponse.motivationAnalysis alexAnalysis,
                             milestones = AnalysisResponse.milestones alexAnalysis,
                             successPrediction = AnalysisResponse.successPrediction alexAnalysis,
                             timelinePrediction = AnalysisResponse.timelinePrediction alexAnalysis,
                             workoutPlan = Some alexPlan \<rparr> \<rparr>
   \<and> fst (handlePsychologicalComplete registrationRejected alexPsychological alexCollected)
     \<noteq> initialState"
proof -
  have "fst (handlePsychologicalComplete registrationRejected alexPsychological alexCollected)
      = alexCollected
          \<lparr> showAssessment := False, initialRegData := None, fitnessData := None,
            assessmentStep := Fitness, isAnalyzing := False,
            results := Some \<lparr> ComprehensiveResults.motivationAnalysis =
                                  AnalysisResponse.motivationAnalysis alexAnalysis,
                                milestones = AnalysisResponse.milestones alexAnalysis,
                                successPrediction = AnalysisResponse.successPrediction alexAnalysis,
                                timelinePrediction =
                                  AnalysisResponse.timelinePrediction alexAnalysis,
                                workoutPlan = Some alexPlan \<rparr> \<rparr>"
    by (simp only: handle_register_rejected
          [OF alexCollected_present registrationRejected_answers] fst_conv)
  then show ?thesis
    by (simp add: alexCollected_eq initialState_def)
qed


end
